theory Spec2Isabelle
  imports Main "HOL-Library.AList"
begin

section \<open>Errors\<close>

text \<open>
  The exceptions the modelled code raises, each with its message.  The endpoints
  exceptions are \<^verbatim>\<open>endpoints.UnauthorizedException\<close>,
  \<^verbatim>\<open>endpoints.NotFoundException\<close>, \<^verbatim>\<open>endpoints.BadRequestException\<close> and
  \<^verbatim>\<open>models.ConflictException\<close>; \<open>ValueError\<close> is what the builtin \<^verbatim>\<open>int()\<close>
  raises on a string that is no integer literal (it carries the offending string), and
  \<open>AttributeError\<close> is what reading a property off an entity of another kind raises
  (it carries the property name).
\<close>

datatype error =
    UnauthorizedException string
  | NotFoundException string
  | ConflictException string
  | BadRequestException string
  | ValueError string
  | AttributeError string

section \<open>Query filter compiler\<close>

subsection \<open>Tables\<close>

definition OPERATORS :: "(string \<times> string) list" where
  "OPERATORS =
    [(''EQ'', ''=''), (''GT'', ''>''), (''GTEQ'', ''>=''),
     (''LT'', ''<''), (''LTEQ'', ''<=''), (''NE'', ''!='')]"

definition FIELDS :: "(string \<times> string) list" where
  "FIELDS =
    [(''CITY'', ''city''), (''TOPIC'', ''topics''),
     (''MONTH'', ''month''), (''MAX_ATTENDEES'', ''maxAttendees'')]"

subsection \<open>Filters and queries\<close>

text \<open>
  A filter as submitted, and the dictionary \<^verbatim>\<open>filtr\<close> that \<^verbatim>\<open>_formatFilters\<close> copies
  it into: the keys \<^verbatim>\<open>field\<close>, \<^verbatim>\<open>operator\<close> and \<^verbatim>\<open>value\<close> (here \<open>val\<close>), all
  strings.
\<close>

record filtr =
  field :: string
  operator :: string
  val :: string

text \<open>The value of a filter node: a string, or the integer \<^verbatim>\<open>int()\<close> made of it.\<close>

datatype pyvalue = PyStr string | PyInt int

datatype FilterNode = FilterNode string string pyvalue

text \<open>
  A query is the list of its sort orders, first the primary one, and the list of the filter
  nodes applied to it.  \<^verbatim>\<open>q.order(p)\<close> adds \<open>p\<close> after the orders the query has,
  \<^verbatim>\<open>q.filter(n)\<close> adds a node to the conjunction.
\<close>

record query =
  orders :: "string list"
  filters :: "FilterNode list"

definition Conference_query :: query where
  "Conference_query = \<lparr>orders = [], filters = []\<rparr>"

definition order :: "query \<Rightarrow> string \<Rightarrow> query" where
  "order q p = q\<lparr>orders := orders q @ [p]\<rparr>"

definition filter_query :: "query \<Rightarrow> FilterNode \<Rightarrow> query" where
  "filter_query q n = q\<lparr>filters := filters q @ [n]\<rparr>"

text \<open>Python's truth value of \<^verbatim>\<open>inequality_field\<close>: \<^verbatim>\<open>None\<close> and the empty string are false.\<close>

fun truthy :: "string option \<Rightarrow> bool" where
  "truthy None = False"
| "truthy (Some s) = (s \<noteq> [])"

subsection \<open>\<^verbatim>\<open>_formatFilters\<close>\<close>

text \<open>
  The loop of \<^verbatim>\<open>_formatFilters\<close> over the filters still to read, with the two variables
  it updates: \<^verbatim>\<open>inequality_field\<close> and \<^verbatim>\<open>formatted_filters\<close>.  A \<^verbatim>\<open>KeyError\<close> of either
  table lookup becomes the \<open>BadRequestException\<close> of the \<^verbatim>\<open>except\<close> clause.
\<close>

fun formatFilters_loop ::
  "filtr list \<Rightarrow> string option \<Rightarrow> filtr list \<Rightarrow> error + (string option \<times> filtr list)" where
  "formatFilters_loop [] inequality_field formatted_filters =
     Inr (inequality_field, formatted_filters)"
| "formatFilters_loop (f # fs) inequality_field formatted_filters =
     (case map_of FIELDS (field f) of
        None \<Rightarrow> Inl (BadRequestException ''Filter contains invalid field or operator.'')
      | Some fld \<Rightarrow>
         (case map_of OPERATORS (operator f) of
            None \<Rightarrow> Inl (BadRequestException ''Filter contains invalid field or operator.'')
          | Some opr \<Rightarrow>
             (if opr \<noteq> ''='' then
                (if truthy inequality_field \<and> inequality_field \<noteq> Some fld then
                   Inl (BadRequestException ''Inequality filter is allowed on only one field.'')
                 else
                   formatFilters_loop fs (Some fld)
                     (formatted_filters @ [f\<lparr>field := fld, operator := opr\<rparr>]))
              else
                formatFilters_loop fs inequality_field
                  (formatted_filters @ [f\<lparr>field := fld, operator := opr\<rparr>]))))"

definition formatFilters :: "filtr list \<Rightarrow> error + (string option \<times> filtr list)" where
  "formatFilters fs = formatFilters_loop fs None []"

subsection \<open>\<^verbatim>\<open>_getQuery\<close>\<close>

text \<open>
  The builtin \<^verbatim>\<open>int()\<close> is not code of this repository: it is the parameter \<open>py_int\<close>,
  a partial function from strings to integers, \<open>None\<close> where \<^verbatim>\<open>int()\<close> raises
  \<^verbatim>\<open>ValueError\<close>.  The loop below is the \<^verbatim>\<open>for filtr in filters\<close> of \<^verbatim>\<open>_getQuery\<close>.
\<close>

fun getQuery_loop :: "(string \<Rightarrow> int option) \<Rightarrow> filtr list \<Rightarrow> query \<Rightarrow> error + query" where
  "getQuery_loop py_int [] q = Inr q"
| "getQuery_loop py_int (filtr # rest) q =
     (if field filtr \<in> set [''month'', ''maxAttendees''] then
        (case py_int (val filtr) of
           None \<Rightarrow> Inl (ValueError (val filtr))
         | Some n \<Rightarrow>
            getQuery_loop py_int rest
              (filter_query q (FilterNode (field filtr) (operator filtr) (PyInt n))))
      else
        getQuery_loop py_int rest
          (filter_query q (FilterNode (field filtr) (operator filtr) (PyStr (val filtr)))))"

definition getQuery :: "(string \<Rightarrow> int option) \<Rightarrow> filtr list \<Rightarrow> error + query" where
  "getQuery py_int request_filters =
     (case formatFilters request_filters of
        Inl e \<Rightarrow> Inl e
      | Inr (inequality_filter, formatted) \<Rightarrow>
         getQuery_loop py_int formatted
           (case inequality_filter of
              None \<Rightarrow> order Conference_query ''name''
            | Some p \<Rightarrow>
               (if \<not> truthy (Some p) then order Conference_query ''name''
                else order (order Conference_query p) ''name'')))"

text \<open>
  A decimal reader to run \<open>getQuery\<close> on concrete filters: an optional sign, then one
  digit or more.
\<close>

fun digit_of :: "char \<Rightarrow> nat option" where
  "digit_of c =
     (if (48::nat) \<le> of_char c \<and> of_char c \<le> (57::nat) then Some (of_char c - 48) else None)"

fun digits_value :: "string \<Rightarrow> nat \<Rightarrow> nat option" where
  "digits_value [] acc = Some acc"
| "digits_value (c # cs) acc =
     (case digit_of c of None \<Rightarrow> None | Some d \<Rightarrow> digits_value cs (10 * acc + d))"

fun decimal_int :: "string \<Rightarrow> int option" where
  "decimal_int [] = None"
| "decimal_int (c # cs) =
     (if c = CHR ''-'' then
        (if cs = [] then None else map_option (\<lambda>n. - int n) (digits_value cs 0))
      else if c = CHR ''+'' then
        (if cs = [] then None else map_option int (digits_value cs 0))
      else map_option int (digits_value (c # cs) 0))"

subsection \<open>Vocabulary of the statements about filters\<close>

text \<open>A filter is valid when both its field name and its operator name are in the tables.\<close>

definition valid_filter :: "filtr \<Rightarrow> bool" where
  "valid_filter f \<longleftrightarrow> map_of FIELDS (field f) \<noteq> None \<and> map_of OPERATORS (operator f) \<noteq> None"

text \<open>A valid filter bears an inequality when its operator is any other than \<open>EQ\<close>.\<close>

definition is_inequality :: "filtr \<Rightarrow> bool" where
  "is_inequality f \<longleftrightarrow> valid_filter f \<and> operator f \<noteq> ''EQ''"

text \<open>The stored property a valid filter is on.\<close>

definition field_of :: "filtr \<Rightarrow> string" where
  "field_of f = (case map_of FIELDS (field f) of Some fld \<Rightarrow> fld | None \<Rightarrow> [])"

text \<open>The operator symbol of a valid filter, and the dictionary \<^verbatim>\<open>_formatFilters\<close> appends for it.\<close>

definition operator_of :: "filtr \<Rightarrow> string" where
  "operator_of f = (case map_of OPERATORS (operator f) of Some opr \<Rightarrow> opr | None \<Rightarrow> [])"

definition formatted :: "filtr \<Rightarrow> filtr" where
  "formatted f = f\<lparr>field := field_of f, operator := operator_of f\<rparr>"

text \<open>The fields that bear an inequality, in the order of the filters.\<close>

definition inequality_fields :: "filtr list \<Rightarrow> string list" where
  "inequality_fields fs = map field_of (filter is_inequality fs)"

text \<open>A filter on one of the two properties \<^verbatim>\<open>_getQuery\<close> converts with \<^verbatim>\<open>int()\<close>.\<close>

definition numeric_filter :: "filtr \<Rightarrow> bool" where
  "numeric_filter f \<longleftrightarrow> field f = ''MONTH'' \<or> field f = ''MAX_ATTENDEES''"


section \<open>Entities and the datastore\<close>

text \<open>
  The signed-in user, as \<^verbatim>\<open>endpoints.get_current_user()\<close> gives it: \<open>user_id\<close> is what
  \<^verbatim>\<open>getUserId(user)\<close> returns for it.
\<close>

record user =
  user_id :: string
  nickname :: string
  email :: string

text \<open>
  The entity kinds, with the properties the code reads and writes.  The property
  \<^verbatim>\<open>name\<close>, which three kinds have, is written with the kind in front:
  \<open>conference_name\<close>, \<open>session_name\<close>, \<open>speaker_name\<close>.
\<close>

record Profile =
  displayName :: string
  mainEmail :: string
  teeShirtSize :: string
  conferenceKeysToAttend :: "string list"
  sessionKeysOnWishlist :: "string list"

record Conference =
  conference_name :: string
  city :: string
  topics :: "string list"
  month :: int
  maxAttendees :: int
  seatsAvailable :: int
  organizerUserId :: string

record Session =
  session_name :: string
  speakerKey :: string
  websafeConferenceKey :: string
  typeOfSession :: string

record Speaker =
  speaker_name :: string
  sessions :: "string list"
  sessions_count :: int

datatype entity =
    ConferenceEntity Conference
  | SessionEntity Session
  | SpeakerEntity Speaker

text \<open>
  The datastore.  A Profile is stored under \<^verbatim>\<open>ndb.Key(Profile, user_id)\<close>: the table
  \<open>profiles\<close>, by user id.  Every other entity is reached through
  \<^verbatim>\<open>ndb.Key(urlsafe=...)\<close>: the table \<open>entities\<close>, by websafe key.  \<^verbatim>\<open>key.get()\<close> is a
  lookup, \<^verbatim>\<open>entity.put()\<close> replaces the entity stored under its key, or adds it.
\<close>

record datastore =
  profiles :: "(string \<times> Profile) list"
  entities :: "(string \<times> entity) list"

definition get_profile :: "datastore \<Rightarrow> string \<Rightarrow> Profile option" where
  "get_profile ds uid = map_of (profiles ds) uid"

definition put_profile :: "string \<Rightarrow> Profile \<Rightarrow> datastore \<Rightarrow> datastore" where
  "put_profile uid p ds = ds\<lparr>profiles := AList.update uid p (profiles ds)\<rparr>"

definition get_entity :: "datastore \<Rightarrow> string \<Rightarrow> entity option" where
  "get_entity ds k = map_of (entities ds) k"

definition put_entity :: "string \<Rightarrow> entity \<Rightarrow> datastore \<Rightarrow> datastore" where
  "put_entity k e ds = ds\<lparr>entities := AList.update k e (entities ds)\<rparr>"

datatype BooleanMessage = BooleanMessage (data: bool)

text \<open>
  \<^verbatim>\<open>@ndb.transactional\<close>: the writes of the body are kept when it returns and dropped
  when it raises.  Requests are run one after the other here; a commit never meets a
  concurrent writer.
\<close>

definition transactional ::
  "(datastore \<Rightarrow> error + ('a \<times> datastore)) \<Rightarrow> datastore \<Rightarrow> (error + 'a) \<times> datastore" where
  "transactional body ds =
     (case body ds of
        Inl e \<Rightarrow> (Inl e, ds)
      | Inr (r, ds') \<Rightarrow> (Inr r, ds'))"

text \<open>\<^verbatim>\<open>@login_required\<close>, around a function that returns a result and the datastore.\<close>

definition login_required ::
  "user option \<Rightarrow> (datastore \<Rightarrow> (error + 'a) \<times> datastore) \<Rightarrow>
    datastore \<Rightarrow> (error + 'a) \<times> datastore" where
  "login_required current_user f ds =
     (case current_user of
        None \<Rightarrow> (Inl (UnauthorizedException ''Authorization required''), ds)
      | Some _ \<Rightarrow> f ds)"

section \<open>Registration and wishlist\<close>

text \<open>
  \<^verbatim>\<open>_getProfileFromUser\<close>: the Profile of the signed-in user with its key, created and
  stored when there is none.
\<close>

definition getProfileFromUser ::
  "user option \<Rightarrow> datastore \<Rightarrow> error + ((string \<times> Profile) \<times> datastore)" where
  "getProfileFromUser current_user ds =
     (case current_user of
        None \<Rightarrow> Inl (UnauthorizedException ''Authorization required'')
      | Some u \<Rightarrow>
         (case get_profile ds (user_id u) of
            Some profile \<Rightarrow> Inr ((user_id u, profile), ds)
          | None \<Rightarrow>
             (let profile = \<lparr>displayName = nickname u, mainEmail = email u,
                             teeShirtSize = ''NOT_SPECIFIED'',
                             conferenceKeysToAttend = [], sessionKeysOnWishlist = []\<rparr>
              in Inr ((user_id u, profile), put_profile (user_id u) profile ds))))"

text \<open>
  The body of \<^verbatim>\<open>_conferenceRegistration\<close>.  Reading \<^verbatim>\<open>seatsAvailable\<close> off an entity
  that is no Conference raises \<open>AttributeError\<close>; \<^verbatim>\<open>list.remove\<close> takes the first
  occurrence out.
\<close>

definition conferenceRegistration_body ::
  "user option \<Rightarrow> string \<Rightarrow> bool \<Rightarrow> datastore \<Rightarrow> error + (BooleanMessage \<times> datastore)" where
  "conferenceRegistration_body current_user wsck reg ds =
     (case getProfileFromUser current_user ds of
        Inl e \<Rightarrow> Inl e
      | Inr ((p_key, prof), ds1) \<Rightarrow>
         (case get_entity ds1 wsck of
            None \<Rightarrow> Inl (NotFoundException (''No conference found with key: '' @ wsck))
          | Some conf \<Rightarrow>
             (if reg then
                (if wsck \<in> set (conferenceKeysToAttend prof) then
                   Inl (ConflictException ''You have already registered for this conference'')
                 else
                   (case conf of
                      ConferenceEntity c \<Rightarrow>
                        (if seatsAvailable c \<le> 0 then
                           Inl (ConflictException ''There are no seats available.'')
                         else
                           Inr (BooleanMessage True,
                             put_entity wsck
                               (ConferenceEntity (c\<lparr>seatsAvailable := seatsAvailable c - 1\<rparr>))
                               (put_profile p_key
                                 (prof\<lparr>conferenceKeysToAttend :=
                                    conferenceKeysToAttend prof @ [wsck]\<rparr>) ds1)))
                    | _ \<Rightarrow> Inl (AttributeError ''seatsAvailable'')))
              else
                (if wsck \<in> set (conferenceKeysToAttend prof) then
                   (case conf of
                      ConferenceEntity c \<Rightarrow>
                        Inr (BooleanMessage True,
                          put_entity wsck
                            (ConferenceEntity (c\<lparr>seatsAvailable := seatsAvailable c + 1\<rparr>))
                            (put_profile p_key
                              (prof\<lparr>conferenceKeysToAttend :=
                                 remove1 wsck (conferenceKeysToAttend prof)\<rparr>) ds1))
                    | _ \<Rightarrow> Inl (AttributeError ''seatsAvailable''))
                 else
                   Inr (BooleanMessage False,
                     put_entity wsck conf (put_profile p_key prof ds1))))))"

definition conferenceRegistration ::
  "user option \<Rightarrow> string \<Rightarrow> bool \<Rightarrow> datastore \<Rightarrow> (error + BooleanMessage) \<times> datastore" where
  "conferenceRegistration current_user wsck reg =
     transactional (conferenceRegistration_body current_user wsck reg)"

definition registerForConference ::
  "user option \<Rightarrow> string \<Rightarrow> datastore \<Rightarrow> (error + BooleanMessage) \<times> datastore" where
  "registerForConference current_user wsck =
     conferenceRegistration current_user wsck True"

definition unregisterFromConference ::
  "user option \<Rightarrow> string \<Rightarrow> datastore \<Rightarrow> (error + BooleanMessage) \<times> datastore" where
  "unregisterFromConference current_user wsck =
     conferenceRegistration current_user wsck False"

text \<open>
  \<^verbatim>\<open>addSessionToWishlist\<close>.  The \<^verbatim>\<open>try\<close> block is a computation of its own; the bare
  \<^verbatim>\<open>except\<close> clause around it turns whatever it raises into \<^verbatim>\<open>result = False\<close>, with the
  datastore as it was when the block was entered (the block writes last).
\<close>

definition addSessionToWishlist_try ::
  "string \<Rightarrow> Profile \<Rightarrow> string \<Rightarrow> datastore \<Rightarrow> error + datastore" where
  "addSessionToWishlist_try p_key prof websafeSessionKey ds =
     (if websafeSessionKey \<in> set (sessionKeysOnWishlist prof) then
        Inl (ConflictException ''You already have this in your wishlist'')
      else
        Inr (put_profile p_key
          (prof\<lparr>sessionKeysOnWishlist := sessionKeysOnWishlist prof @ [websafeSessionKey]\<rparr>)
          ds))"

definition addSessionToWishlist_body ::
  "user option \<Rightarrow> string \<Rightarrow> datastore \<Rightarrow> error + (BooleanMessage \<times> datastore)" where
  "addSessionToWishlist_body current_user websafeSessionKey ds =
     (case getProfileFromUser current_user ds of
        Inl e \<Rightarrow> Inl e
      | Inr ((p_key, prof), ds1) \<Rightarrow>
         (case get_entity ds1 websafeSessionKey of
            None \<Rightarrow> Inl (NotFoundException (''No session found with key: '' @ websafeSessionKey))
          | Some session \<Rightarrow>
             (case addSessionToWishlist_try p_key prof websafeSessionKey ds1 of
                Inr ds2 \<Rightarrow> Inr (BooleanMessage True, ds2)
              | Inl _ \<Rightarrow> Inr (BooleanMessage False, ds1))))"

definition addSessionToWishlist ::
  "user option \<Rightarrow> string \<Rightarrow> datastore \<Rightarrow> (error + BooleanMessage) \<times> datastore" where
  "addSessionToWishlist current_user websafeSessionKey =
     login_required current_user
       (transactional (addSessionToWishlist_body current_user websafeSessionKey))"

text \<open>\<^verbatim>\<open>deleteSessionFromWishlist\<close>, built the same way.\<close>

definition deleteSessionFromWishlist_try ::
  "string \<Rightarrow> Profile \<Rightarrow> string \<Rightarrow> datastore \<Rightarrow> error + datastore" where
  "deleteSessionFromWishlist_try p_key prof websafeSessionKey ds =
     (if websafeSessionKey \<in> set (sessionKeysOnWishlist prof) then
        Inr (put_profile p_key
          (prof\<lparr>sessionKeysOnWishlist := remove1 websafeSessionKey (sessionKeysOnWishlist prof)\<rparr>)
          ds)
      else
        Inl (NotFoundException
          (''No session found in wishlist with key: '' @ websafeSessionKey)))"

definition deleteSessionFromWishlist_body ::
  "user option \<Rightarrow> string \<Rightarrow> datastore \<Rightarrow> error + (BooleanMessage \<times> datastore)" where
  "deleteSessionFromWishlist_body current_user websafeSessionKey ds =
     (case getProfileFromUser current_user ds of
        Inl e \<Rightarrow> Inl e
      | Inr ((p_key, prof), ds1) \<Rightarrow>
         (case get_entity ds1 websafeSessionKey of
            None \<Rightarrow> Inl (NotFoundException (''No session found with key: '' @ websafeSessionKey))
          | Some session \<Rightarrow>
             (case deleteSessionFromWishlist_try p_key prof websafeSessionKey ds1 of
                Inr ds2 \<Rightarrow> Inr (BooleanMessage True, ds2)
              | Inl _ \<Rightarrow> Inr (BooleanMessage False, ds1))))"

definition deleteSessionFromWishlist ::
  "user option \<Rightarrow> string \<Rightarrow> datastore \<Rightarrow> (error + BooleanMessage) \<times> datastore" where
  "deleteSessionFromWishlist current_user websafeSessionKey =
     login_required current_user
       (transactional (deleteSessionFromWishlist_body current_user websafeSessionKey))"

text \<open>What a user is registered for and wishes, as the datastore has it: nothing without a Profile.\<close>

definition keysToAttend :: "datastore \<Rightarrow> string \<Rightarrow> string list" where
  "keysToAttend ds uid =
     (case get_profile ds uid of None \<Rightarrow> [] | Some p \<Rightarrow> conferenceKeysToAttend p)"

definition wishlist :: "datastore \<Rightarrow> string \<Rightarrow> string list" where
  "wishlist ds uid =
     (case get_profile ds uid of None \<Rightarrow> [] | Some p \<Rightarrow> sessionKeysOnWishlist p)"

section \<open>Featured speaker\<close>

text \<open>
  The task payload is the parameter list of the request; \<^verbatim>\<open>request.get(k)\<close> is the empty
  string for a parameter that is not there.  Memcache is a map from keys to strings.
\<close>

definition request_get :: "(string \<times> string) list \<Rightarrow> string \<Rightarrow> string" where
  "request_get request k = (case map_of request k of None \<Rightarrow> [] | Some v \<Rightarrow> v)"

definition MEMCACHE_FEATURED_SPEAKER :: string where
  "MEMCACHE_FEATURED_SPEAKER = ''FEATURED_SPEAKER''"

text \<open>\<^verbatim>\<open>sep.join(xs)\<close>.\<close>

fun join :: "string \<Rightarrow> string list \<Rightarrow> string" where
  "join sep [] = []"
| "join sep [x] = x"
| "join sep (x # y # ys) = x @ sep @ join sep (y # ys)"

text \<open>The Session entities of the datastore, and the query of the handler over them.\<close>

fun sessions_of :: "(string \<times> entity) list \<Rightarrow> Session list" where
  "sessions_of [] = []"
| "sessions_of ((k, SessionEntity s) # rest) = s # sessions_of rest"
| "sessions_of ((k, e) # rest) = sessions_of rest"

definition Session_query :: "datastore \<Rightarrow> string \<Rightarrow> string \<Rightarrow> Session list" where
  "Session_query ds speaker_key conference_key =
     filter (\<lambda>s. speakerKey s = speaker_key \<and> websafeConferenceKey s = conference_key)
       (sessions_of (entities ds))"

text \<open>
  \<^verbatim>\<open>_updateSpeaker\<close>.  An entity of another kind under the speaker key has no
  \<^verbatim>\<open>sessions\<close>: the \<open>AttributeError\<close> is caught by the \<^verbatim>\<open>except\<close> clause and the result
  is \<open>False\<close>.
\<close>

definition updateSpeaker :: "(string \<times> string) list \<Rightarrow> datastore \<Rightarrow> bool \<times> datastore" where
  "updateSpeaker request ds =
     (let speaker_key = request_get request ''speakerKey'' in
      case get_entity ds speaker_key of
        None \<Rightarrow> (False, ds)
      | Some (SpeakerEntity speaker) \<Rightarrow>
         (let appended = sessions speaker @ [request_get request ''sessionName'']
          in (True,
              put_entity speaker_key
                (SpeakerEntity
                  (speaker\<lparr>sessions := appended, sessions_count := int (length appended)\<rparr>))
                ds))
      | Some _ \<Rightarrow> (False, ds))"

text \<open>\<^verbatim>\<open>SetFeaturedSpeakerHandler.post\<close>, on the datastore and memcache.\<close>

definition SetFeaturedSpeakerHandler_post ::
  "(string \<times> string) list \<Rightarrow> datastore \<times> (string \<rightharpoonup> string) \<Rightarrow>
    datastore \<times> (string \<rightharpoonup> string)" where
  "SetFeaturedSpeakerHandler_post request state =
     (case state of (ds, memcache) \<Rightarrow>
        (let found = Session_query ds (request_get request ''speakerKey'')
                       (request_get request ''websafeConferenceKey'');
             memcache' =
               (if length found > 1 then
                  memcache(MEMCACHE_FEATURED_SPEAKER \<mapsto>
                    request_get request ''speakerName'' @ '' is Featured Speaker with sessions '' @
                    join '', '' (map session_name found))
                else memcache)
         in (snd (updateSpeaker request ds), memcache')))"


section \<open>Vocabulary of the statements about the datastore\<close>

text \<open>The Profile \<^verbatim>\<open>_getProfileFromUser\<close> creates for a user who has none.\<close>

definition new_profile :: "user \<Rightarrow> Profile" where
  "new_profile u = \<lparr>displayName = nickname u, mainEmail = email u,
     teeShirtSize = ''NOT_SPECIFIED'', conferenceKeysToAttend = [], sessionKeysOnWishlist = []\<rparr>"

text \<open>
  What \<^verbatim>\<open>_getProfileFromUser\<close> returns for a signed-in user: the Profile stored, or the new
  one; and the datastore it leaves: the same, or with the new Profile added.
\<close>

definition profile_or_new :: "datastore \<Rightarrow> user \<Rightarrow> Profile" where
  "profile_or_new ds u = (case get_profile ds (user_id u) of None \<Rightarrow> new_profile u | Some p \<Rightarrow> p)"

definition with_profile :: "datastore \<Rightarrow> user \<Rightarrow> datastore" where
  "with_profile ds u =
    (case get_profile ds (user_id u) of
       None \<Rightarrow> put_profile (user_id u) (new_profile u) ds
     | Some p \<Rightarrow> ds)"

section \<open>Example data\<close>

definition alice :: user where
  "alice = \<lparr>user_id = ''alice'', nickname = ''Alice'', email = ''alice@example.com''\<rparr>"

definition alice_profile :: "string list \<Rightarrow> string list \<Rightarrow> Profile" where
  "alice_profile attending wished =
     \<lparr>displayName = ''Alice'', mainEmail = ''alice@example.com'',
      teeShirtSize = ''NOT_SPECIFIED'', conferenceKeysToAttend = attending,
      sessionKeysOnWishlist = wished\<rparr>"

definition pycon :: "int \<Rightarrow> Conference" where
  "pycon seats =
     \<lparr>conference_name = ''PyCon'', city = ''London'', topics = [''Python''], month = 6,
      maxAttendees = 2, seatsAvailable = seats, organizerUserId = ''bob''\<rparr>"

definition keynote :: Session where
  "keynote = \<lparr>session_name = ''Keynote'', speakerKey = ''spk1'',
     websafeConferenceKey = ''conf1'', typeOfSession = ''talk''\<rparr>"

definition example_store :: "string list \<Rightarrow> string list \<Rightarrow> int \<Rightarrow> datastore" where
  "example_store attending wished seats =
     \<lparr>profiles = [(''alice'', alice_profile attending wished)],
      entities = [(''conf1'', ConferenceEntity (pycon seats)), (''sess1'', SessionEntity keynote)]\<rparr>"


definition talk :: "string \<Rightarrow> Session" where
  "talk n = \<lparr>session_name = n, speakerKey = ''spk1'', websafeConferenceKey = ''conf1'',
     typeOfSession = ''talk''\<rparr>"

definition ada :: "string list \<Rightarrow> Speaker" where
  "ada given = \<lparr>speaker_name = ''Ada'', sessions = given, sessions_count = int (length given)\<rparr>"

definition featured_store :: "string list \<Rightarrow> datastore" where
  "featured_store given =
     \<lparr>profiles = [],
      entities = [(''conf1'', ConferenceEntity (pycon 2)), (''spk1'', SpeakerEntity (ada given)),
        (''s1'', SessionEntity (talk ''Intro'')), (''s2'', SessionEntity (talk ''Advanced''))]\<rparr>"

definition featured_task :: "string \<Rightarrow> string \<Rightarrow> (string \<times> string) list" where
  "featured_task speaker_key speaker =
     [(''speakerKey'', speaker_key), (''speakerName'', speaker), (''sessionName'', ''Advanced''),
      (''websafeConferenceKey'', ''conf1'')]"

section \<open>Properties of the filter compiler\<close>

lemma FIELDS_nonempty: "map_of FIELDS x = Some fld \<Longrightarrow> fld \<noteq> []"
  by (auto simp: FIELDS_def split: if_splits)

lemma OPERATORS_eq: "map_of OPERATORS x = Some opr \<Longrightarrow> (opr = ''='') = (x = ''EQ'')"
  by (auto simp: OPERATORS_def split: if_splits)

lemma formatFilters_loop_step:
  assumes "valid_filter f"
  shows "formatFilters_loop (f # fs) st acc =
     (if is_inequality f then
        (if truthy st \<and> st \<noteq> Some (field_of f) then
           Inl (BadRequestException ''Inequality filter is allowed on only one field.'')
         else formatFilters_loop fs (Some (field_of f)) (acc @ [formatted f]))
      else formatFilters_loop fs st (acc @ [formatted f]))"
proof -
  from assms obtain fld opr where
    fo: "map_of FIELDS (field f) = Some fld" "map_of OPERATORS (operator f) = Some opr"
    by (auto simp: valid_filter_def)
  have ineq: "is_inequality f = (opr \<noteq> ''='')"
    using assms fo OPERATORS_eq [OF fo(2)] by (simp add: is_inequality_def)
  show ?thesis
    using fo by (simp add: ineq field_of_def operator_of_def formatted_def)
qed

lemma field_of_nonempty: "valid_filter f \<Longrightarrow> field_of f \<noteq> []"
  by (auto simp: valid_filter_def field_of_def dest: FIELDS_nonempty)

lemma loop_conflict_Some:
  assumes "\<forall>f\<in>set pre. valid_filter f" and "g \<noteq> []"
    and "\<exists>f\<in>set pre. is_inequality f \<and> field_of f \<noteq> g"
  shows "formatFilters_loop (pre @ rest) (Some g) acc =
    Inl (BadRequestException ''Inequality filter is allowed on only one field.'')"
  using assms
proof (induction pre arbitrary: acc)
  case Nil
  then show ?case by simp
next
  case (Cons f pre)
  then have v: "valid_filter f" by simp
  show ?case
  proof (cases "is_inequality f \<and> field_of f \<noteq> g")
    case True
    then show ?thesis using v Cons.prems(2)
      by (auto simp add: formatFilters_loop_step simp del: formatFilters_loop.simps)
  next
    case False
    then have tl: "\<exists>f\<in>set pre. is_inequality f \<and> field_of f \<noteq> g"
      using Cons.prems(3) by auto
    have ih: "\<And>acc. formatFilters_loop (pre @ rest) (Some g) acc =
      Inl (BadRequestException ''Inequality filter is allowed on only one field.'')"
      using Cons.IH [OF _ Cons.prems(2) tl] Cons.prems(1) by simp
    show ?thesis using v False ih
      by (auto simp add: formatFilters_loop_step simp del: formatFilters_loop.simps)
  qed
qed

lemma loop_conflict_None:
  assumes "\<forall>f\<in>set pre. valid_filter f"
    and "f1 \<in> set pre" "f2 \<in> set pre" "is_inequality f1" "is_inequality f2"
    and "field_of f1 \<noteq> field_of f2"
  shows "formatFilters_loop (pre @ rest) None acc =
    Inl (BadRequestException ''Inequality filter is allowed on only one field.'')"
  using assms
proof (induction pre arbitrary: acc)
  case Nil
  then show ?case by simp
next
  case (Cons f pre)
  then have v: "valid_filter f" and vs: "\<forall>f\<in>set pre. valid_filter f" by simp_all
  show ?case
  proof (cases "is_inequality f")
    case True
    have "\<exists>h\<in>set pre. is_inequality h \<and> field_of h \<noteq> field_of f"
    proof (cases "field_of f1 = field_of f")
      case True
      then have "f2 \<noteq> f" using Cons.prems(6) by auto
      then show ?thesis using Cons.prems True by auto
    next
      case False
      then have "f1 \<noteq> f" by auto
      then show ?thesis using Cons.prems False by auto
    qed
    then have "formatFilters_loop (pre @ rest) (Some (field_of f)) (acc @ [formatted f]) =
      Inl (BadRequestException ''Inequality filter is allowed on only one field.'')"
      using loop_conflict_Some [OF vs field_of_nonempty [OF v]] by blast
    then show ?thesis using v True
      by (simp add: formatFilters_loop_step del: formatFilters_loop.simps)
  next
    case False
    then have "f1 \<in> set pre" "f2 \<in> set pre" using Cons.prems by auto
    then have "formatFilters_loop (pre @ rest) None (acc @ [formatted f]) =
      Inl (BadRequestException ''Inequality filter is allowed on only one field.'')"
      using Cons.IH [OF vs] Cons.prems by blast
    then show ?thesis using v False
      by (simp add: formatFilters_loop_step del: formatFilters_loop.simps)
  qed
qed


lemma loop_success:
  assumes "\<forall>f\<in>set fs. valid_filter f"
    and "\<forall>h\<in>set (inequality_fields fs). st = None \<or> st = Some h"
    and "\<forall>g\<in>set (inequality_fields fs). \<forall>h\<in>set (inequality_fields fs). g = h"
  shows "formatFilters_loop fs st acc =
    Inr (case inequality_fields fs of [] \<Rightarrow> st | g # _ \<Rightarrow> Some g, acc @ map formatted fs)"
  using assms
proof (induction fs arbitrary: st acc)
  case Nil
  then show ?case by (simp add: inequality_fields_def)
next
  case (Cons f fs)
  then have v: "valid_filter f" and vs: "\<forall>f\<in>set fs. valid_filter f" by simp_all
  show ?case
  proof (cases "is_inequality f")
    case True
    then have hd: "inequality_fields (f # fs) = field_of f # inequality_fields fs"
      by (simp add: inequality_fields_def)
    have st: "st = None \<or> st = Some (field_of f)"
      using Cons.prems(2) hd by auto
    have all: "\<forall>h\<in>set (inequality_fields fs). h = field_of f"
      using Cons.prems(3) hd by simp
    have "formatFilters_loop fs (Some (field_of f)) (acc @ [formatted f]) =
      Inr (case inequality_fields fs of [] \<Rightarrow> Some (field_of f) | g # _ \<Rightarrow> Some g,
           (acc @ [formatted f]) @ map formatted fs)"
    proof (rule Cons.IH [OF vs])
      show "\<forall>h\<in>set (inequality_fields fs). Some (field_of f) = None \<or> Some (field_of f) = Some h"
        using all by auto
      show "\<forall>g\<in>set (inequality_fields fs). \<forall>h\<in>set (inequality_fields fs). g = h"
        using all by metis
    qed
    also have "(case inequality_fields fs of [] \<Rightarrow> Some (field_of f) | g # _ \<Rightarrow> Some g) =
      Some (field_of f)"
      using all by (cases "inequality_fields fs") simp_all
    finally show ?thesis using v True st hd
      by (auto simp add: formatFilters_loop_step simp del: formatFilters_loop.simps)
  next
    case False
    then have hd: "inequality_fields (f # fs) = inequality_fields fs"
      by (simp add: inequality_fields_def)
    have "formatFilters_loop fs st (acc @ [formatted f]) =
      Inr (case inequality_fields fs of [] \<Rightarrow> st | g # _ \<Rightarrow> Some g,
           (acc @ [formatted f]) @ map formatted fs)"
    proof (rule Cons.IH [OF vs])
      show "\<forall>h\<in>set (inequality_fields fs). st = None \<or> st = Some h"
        using Cons.prems(2) hd by simp
      show "\<forall>g\<in>set (inequality_fields fs). \<forall>h\<in>set (inequality_fields fs). g = h"
        using Cons.prems(3) hd by simp
    qed
    then show ?thesis using v False hd
      by (simp add: formatFilters_loop_step del: formatFilters_loop.simps)
  qed
qed

lemma formatFilters_success:
  assumes "\<forall>f\<in>set fs. valid_filter f"
    and "\<forall>g\<in>set (inequality_fields fs). \<forall>h\<in>set (inequality_fields fs). g = h"
  shows "formatFilters fs =
    Inr (case inequality_fields fs of [] \<Rightarrow> None | g # _ \<Rightarrow> Some g, map formatted fs)"
  using loop_success [OF assms(1) _ assms(2), of None "[]"] by (simp add: formatFilters_def)

lemma getQuery_loop_success:
  assumes "\<forall>f\<in>set ffs. field f \<in> set [''month'', ''maxAttendees''] \<longrightarrow> py_int (val f) \<noteq> None"
  shows "\<exists>q'. getQuery_loop py_int ffs q = Inr q' \<and> orders q' = orders q"
  using assms
proof (induction ffs arbitrary: q)
  case Nil
  then show ?case by simp
next
  case (Cons f ffs)
  then have tl: "\<forall>f\<in>set ffs.
      field f \<in> set [''month'', ''maxAttendees''] \<longrightarrow> py_int (val f) \<noteq> None"
    by simp
  have ih: "\<exists>q'. getQuery_loop py_int ffs (filter_query q n) = Inr q' \<and> orders q' = orders q"
    for n
    using Cons.IH [OF tl, of "filter_query q n"] by (simp add: filter_query_def)
  show ?case
  proof (cases "field f \<in> set [''month'', ''maxAttendees'']")
    case True
    then obtain n where "py_int (val f) = Some n" using Cons.prems by auto
    then show ?thesis using True ih by simp
  next
    case False
    then show ?thesis using ih by simp
  qed
qed

lemma getQuery_loop_failure:
  assumes "\<exists>f\<in>set ffs. field f \<in> set [''month'', ''maxAttendees''] \<and> py_int (val f) = None"
  shows "\<exists>g\<in>set ffs. field g \<in> set [''month'', ''maxAttendees''] \<and> py_int (val g) = None \<and>
    getQuery_loop py_int ffs q = Inl (ValueError (val g))"
  using assms
proof (induction ffs arbitrary: q)
  case Nil
  then show ?case by simp
next
  case (Cons f ffs)
  show ?case
  proof (cases "field f \<in> set [''month'', ''maxAttendees''] \<and> py_int (val f) = None")
    case True
    then show ?thesis by auto
  next
    case False
    then have "\<exists>f\<in>set ffs. field f \<in> set [''month'', ''maxAttendees''] \<and> py_int (val f) = None"
      using Cons.prems by auto
    from Cons.IH [OF this] show ?thesis using False by (auto split: option.splits)
  qed
qed

lemma numeric_formatted:
  "valid_filter f \<Longrightarrow>
    (field (formatted f) \<in> set [''month'', ''maxAttendees'']) = numeric_filter f"
  by (auto simp: valid_filter_def formatted_def field_of_def numeric_filter_def FIELDS_def
      split: if_splits)

lemma val_formatted: "val (formatted f) = val f"
  by (simp add: formatted_def)


text \<open>
  C3.  A list of filters with valid names (field and operator both in the tables) in which
  two filters bear an inequality on different fields is rejected with ``Inequality filter is
  allowed on only one field.'', whichever of the two comes first; \<open>getQuery\<close> fails with the
  same error and builds no query.  The list may be followed by anything (\<open>rest\<close>): the loop
  stops at the second inequality.
\<close>

theorem two_inequality_fields_rejected:
  assumes "\<forall>f\<in>set pre. valid_filter f"
    and "f1 \<in> set pre" and "f2 \<in> set pre"
    and "is_inequality f1" and "is_inequality f2"
    and "field_of f1 \<noteq> field_of f2"
  shows "formatFilters (pre @ rest) =
      Inl (BadRequestException ''Inequality filter is allowed on only one field.'') \<and>
    getQuery py_int (pre @ rest) =
      Inl (BadRequestException ''Inequality filter is allowed on only one field.'')"
proof -
  have "formatFilters (pre @ rest) =
      Inl (BadRequestException ''Inequality filter is allowed on only one field.'')"
    unfolding formatFilters_def by (rule loop_conflict_None [OF assms])
  then show ?thesis by (simp add: getQuery_def)
qed

theorem two_inequality_fields_rejected_witness:
  "getQuery decimal_int
     [\<lparr>field = ''MONTH'', operator = ''LT'', val = ''6''\<rparr>,
      \<lparr>field = ''TOPIC'', operator = ''EQ'', val = ''Health''\<rparr>,
      \<lparr>field = ''CITY'', operator = ''GT'', val = ''London''\<rparr>] =
     Inl (BadRequestException ''Inequality filter is allowed on only one field.'') \<and>
   getQuery decimal_int
     [\<lparr>field = ''CITY'', operator = ''GT'', val = ''London''\<rparr>,
      \<lparr>field = ''TOPIC'', operator = ''EQ'', val = ''Health''\<rparr>,
      \<lparr>field = ''MONTH'', operator = ''LT'', val = ''6''\<rparr>] =
     Inl (BadRequestException ''Inequality filter is allowed on only one field.'')"
proof -
  let ?m = "\<lparr>field = ''MONTH'', operator = ''LT'', val = ''6''\<rparr>"
  let ?t = "\<lparr>field = ''TOPIC'', operator = ''EQ'', val = ''Health''\<rparr>"
  let ?c = "\<lparr>field = ''CITY'', operator = ''GT'', val = ''London''\<rparr>"
  have v: "\<forall>f\<in>set [?m, ?t, ?c]. valid_filter f"
    and v': "\<forall>f\<in>set [?c, ?t, ?m]. valid_filter f"
    by (simp_all add: valid_filter_def FIELDS_def OPERATORS_def)
  have m: "is_inequality ?m" and c: "is_inequality ?c"
    by (simp_all add: is_inequality_def valid_filter_def FIELDS_def OPERATORS_def)
  have d: "field_of ?c \<noteq> field_of ?m"
    by (simp add: field_of_def FIELDS_def)
  have "getQuery decimal_int ([?m, ?t, ?c] @ []) =
      Inl (BadRequestException ''Inequality filter is allowed on only one field.'')"
    using two_inequality_fields_rejected [OF v _ _ c m d, of "[]" decimal_int] by simp
  moreover have "getQuery decimal_int ([?c, ?t, ?m] @ []) =
      Inl (BadRequestException ''Inequality filter is allowed on only one field.'')"
    using two_inequality_fields_rejected [OF v' _ _ c m d, of "[]" decimal_int] by simp
  ultimately show ?thesis by simp
qed

text \<open>
  C4.  For a list of valid filters whose numeric values \<^verbatim>\<open>int()\<close> accepts and in which at
  most one field bears an inequality, \<open>getQuery\<close> returns a query; its sort orders are that
  field and then \<^verbatim>\<open>name\<close> when a field bears an inequality, and \<^verbatim>\<open>name\<close> alone when none
  does.
\<close>

theorem getQuery_sort_order:
  assumes "\<forall>f\<in>set fs. valid_filter f"
    and "\<forall>g\<in>set (inequality_fields fs). \<forall>h\<in>set (inequality_fields fs). g = h"
    and "\<forall>f\<in>set fs. numeric_filter f \<longrightarrow> py_int (val f) \<noteq> None"
  shows "\<exists>q. getQuery py_int fs = Inr q \<and>
    orders q = (case inequality_fields fs of [] \<Rightarrow> [''name''] | g # _ \<Rightarrow> [g, ''name''])"
proof -
  have ok: "\<forall>f\<in>set (map formatted fs).
      field f \<in> set [''month'', ''maxAttendees''] \<longrightarrow> py_int (val f) \<noteq> None"
    using assms(1,3) by (auto simp: numeric_formatted val_formatted simp del: set_simps)
  have ne: "\<forall>g\<in>set (inequality_fields fs). g \<noteq> []"
    using assms(1) by (auto simp: inequality_fields_def field_of_nonempty)
  show ?thesis
  proof (cases "inequality_fields fs")
    case Nil
    then show ?thesis
      using getQuery_loop_success [OF ok, of "order Conference_query ''name''"]
        formatFilters_success [OF assms(1,2)]
      by (auto simp: getQuery_def order_def Conference_query_def)
  next
    case (Cons g gs)
    then have "g \<noteq> []" using ne by simp
    then show ?thesis
      using getQuery_loop_success [OF ok, of "order (order Conference_query g) ''name''"]
        formatFilters_success [OF assms(1,2)] Cons
      by (auto simp: getQuery_def order_def Conference_query_def)
  qed
qed


theorem getQuery_sort_order_witness:
  "(\<exists>q. getQuery decimal_int
       [\<lparr>field = ''CITY'', operator = ''EQ'', val = ''London''\<rparr>,
        \<lparr>field = ''MONTH'', operator = ''GTEQ'', val = ''6''\<rparr>,
        \<lparr>field = ''MONTH'', operator = ''LT'', val = ''9''\<rparr>] = Inr q \<and>
      orders q = [''month'', ''name'']) \<and>
   (\<exists>q. getQuery decimal_int
       [\<lparr>field = ''MAX_ATTENDEES'', operator = ''EQ'', val = ''100''\<rparr>] = Inr q \<and>
      orders q = [''name''])"
proof -
  let ?fs = "[\<lparr>field = ''CITY'', operator = ''EQ'', val = ''London''\<rparr>,
        \<lparr>field = ''MONTH'', operator = ''GTEQ'', val = ''6''\<rparr>,
        \<lparr>field = ''MONTH'', operator = ''LT'', val = ''9''\<rparr>]"
  let ?gs = "[\<lparr>field = ''MAX_ATTENDEES'', operator = ''EQ'', val = ''100''\<rparr>]"
  have i1: "inequality_fields ?fs = [''month'', ''month'']"
    by (simp add: inequality_fields_def is_inequality_def valid_filter_def field_of_def
        FIELDS_def OPERATORS_def)
  have i2: "inequality_fields ?gs = []"
    by (simp add: inequality_fields_def is_inequality_def)
  have v1: "\<forall>f\<in>set ?fs. valid_filter f" and v2: "\<forall>f\<in>set ?gs. valid_filter f"
    by (simp_all add: valid_filter_def FIELDS_def OPERATORS_def)
  have u1: "\<forall>g\<in>set (inequality_fields ?fs). \<forall>h\<in>set (inequality_fields ?fs). g = h"
    unfolding i1 by simp
  have u2: "\<forall>g\<in>set (inequality_fields ?gs). \<forall>h\<in>set (inequality_fields ?gs). g = h"
    unfolding i2 by simp
  have n1: "\<forall>f\<in>set ?fs. numeric_filter f \<longrightarrow> decimal_int (val f) \<noteq> None"
    and n2: "\<forall>f\<in>set ?gs. numeric_filter f \<longrightarrow> decimal_int (val f) \<noteq> None"
    by (simp_all add: numeric_filter_def)
  show ?thesis
    using getQuery_sort_order [OF v1 u1 n1] getQuery_sort_order [OF v2 u2 n2]
    unfolding i1 i2 by simp
qed

text \<open>
  C10.  \<^verbatim>\<open>_formatFilters\<close> accepts a list of valid filters with at most one inequality field
  whatever the values are; when such a list holds a filter on \<^verbatim>\<open>month\<close> or
  \<^verbatim>\<open>maxAttendees\<close> whose value \<^verbatim>\<open>int()\<close> rejects, \<open>getQuery\<close> ends in the \<open>ValueError\<close>
  of that conversion, not in a \<open>BadRequestException\<close>.
\<close>

theorem getQuery_value_not_validated:
  assumes "\<forall>f\<in>set fs. valid_filter f"
    and "\<forall>g\<in>set (inequality_fields fs). \<forall>h\<in>set (inequality_fields fs). g = h"
    and "\<exists>f\<in>set fs. numeric_filter f \<and> py_int (val f) = None"
  shows "(\<exists>r. formatFilters fs = Inr r) \<and>
    (\<exists>g\<in>set fs. numeric_filter g \<and> py_int (val g) = None \<and>
       getQuery py_int fs = Inl (ValueError (val g)))"
proof -
  have bad: "\<exists>f\<in>set (map formatted fs).
      field f \<in> set [''month'', ''maxAttendees''] \<and> py_int (val f) = None"
    using assms(1,3) by (auto simp: numeric_formatted val_formatted simp del: set_simps)
  have fmt: "formatFilters fs =
    Inr (case inequality_fields fs of [] \<Rightarrow> None | g # _ \<Rightarrow> Some g, map formatted fs)"
    by (rule formatFilters_success [OF assms(1,2)])
  have "\<exists>g\<in>set fs. numeric_filter g \<and> py_int (val g) = None \<and>
       getQuery_loop py_int (map formatted fs) q = Inl (ValueError (val g))" for q
    using getQuery_loop_failure [OF bad, of q] assms(1)
    by (auto simp: numeric_formatted val_formatted simp del: set_simps)
  then show ?thesis
    using fmt by (auto simp: getQuery_def split: option.splits)
qed

theorem getQuery_value_not_validated_witness:
  "(\<exists>r. formatFilters [\<lparr>field = ''MONTH'', operator = ''EQ'', val = ''June''\<rparr>] = Inr r) \<and>
   getQuery decimal_int [\<lparr>field = ''MONTH'', operator = ''EQ'', val = ''June''\<rparr>] =
     Inl (ValueError ''June'')"
proof -
  let ?fs = "[\<lparr>field = ''MONTH'', operator = ''EQ'', val = ''June''\<rparr>]"
  have v: "\<forall>f\<in>set ?fs. valid_filter f"
    by (simp add: valid_filter_def FIELDS_def OPERATORS_def)
  have i: "inequality_fields ?fs = []"
    by (simp add: inequality_fields_def is_inequality_def)
  have u: "\<forall>g\<in>set (inequality_fields ?fs). \<forall>h\<in>set (inequality_fields ?fs). g = h"
    unfolding i by simp
  have b: "\<exists>f\<in>set ?fs. numeric_filter f \<and> decimal_int (val f) = None"
    by (simp add: numeric_filter_def)
  show ?thesis
    using getQuery_value_not_validated [OF v u b] by simp
qed


section \<open>Properties of registration and wishlist\<close>

subsection \<open>The datastore\<close>

lemma put_profile_same:
  "get_profile ds uid = Some p \<Longrightarrow> put_profile uid p ds = ds"
  by (simp add: get_profile_def put_profile_def AList.update_triv)

lemma put_entity_same:
  "get_entity ds k = Some e \<Longrightarrow> put_entity k e ds = ds"
  by (simp add: get_entity_def put_entity_def AList.update_triv)

lemma get_profile_put_profile:
  "get_profile (put_profile uid p ds) uid' = (if uid' = uid then Some p else get_profile ds uid')"
  by (simp add: get_profile_def put_profile_def AList.update_conv')

lemma get_entity_put_entity:
  "get_entity (put_entity k e ds) k' = (if k' = k then Some e else get_entity ds k')"
  by (simp add: get_entity_def put_entity_def AList.update_conv')

lemma get_profile_put_entity: "get_profile (put_entity k e ds) uid = get_profile ds uid"
  by (simp add: get_profile_def put_entity_def)

lemma get_entity_put_profile: "get_entity (put_profile uid p ds) k = get_entity ds k"
  by (simp add: get_entity_def put_profile_def)

lemma put_profile_twice:
  "put_profile uid p (put_profile uid p' ds) = put_profile uid p ds"
  by (simp add: put_profile_def)

lemma put_entity_twice:
  "put_entity k e (put_entity k e' ds) = put_entity k e ds"
  by (simp add: put_entity_def)

lemma put_profile_put_entity:
  "put_profile uid p (put_entity k e ds) = put_entity k e (put_profile uid p ds)"
  by (simp add: put_profile_def put_entity_def)

lemma getProfileFromUser_existing:
  "get_profile ds (user_id u) = Some p \<Longrightarrow>
    getProfileFromUser (Some u) ds = Inr ((user_id u, p), ds)"
  by (simp add: getProfileFromUser_def)

lemma getProfileFromUser_absent:
  "get_profile ds (user_id u) = None \<Longrightarrow>
    getProfileFromUser (Some u) ds =
      Inr ((user_id u, new_profile u), put_profile (user_id u) (new_profile u) ds)"
  by (simp add: getProfileFromUser_def new_profile_def Let_def)

lemma getProfileFromUser_Some:
  "getProfileFromUser (Some u) ds = Inr ((user_id u, profile_or_new ds u), with_profile ds u)"
  by (cases "get_profile ds (user_id u)")
    (simp_all add: getProfileFromUser_existing getProfileFromUser_absent profile_or_new_def
      with_profile_def)

lemma get_profile_with_profile:
  "get_profile (with_profile ds u) (user_id u) = Some (profile_or_new ds u)"
  by (cases "get_profile ds (user_id u)")
    (simp_all add: with_profile_def profile_or_new_def get_profile_put_profile)

lemma get_entity_with_profile: "get_entity (with_profile ds u) k = get_entity ds k"
  by (cases "get_profile ds (user_id u)")
    (simp_all add: with_profile_def get_entity_put_profile)

lemma with_profile_existing: "get_profile ds (user_id u) = Some p \<Longrightarrow> with_profile ds u = ds"
  by (simp add: with_profile_def)

lemma keysToAttend_profile_or_new:
  "conferenceKeysToAttend (profile_or_new ds u) = keysToAttend ds (user_id u)"
  by (cases "get_profile ds (user_id u)")
    (simp_all add: profile_or_new_def keysToAttend_def new_profile_def)

lemma wishlist_profile_or_new:
  "sessionKeysOnWishlist (profile_or_new ds u) = wishlist ds (user_id u)"
  by (cases "get_profile ds (user_id u)")
    (simp_all add: profile_or_new_def wishlist_def new_profile_def)

lemma entities_with_profile: "entities (with_profile ds u) = entities ds"
  by (cases "get_profile ds (user_id u)") (simp_all add: with_profile_def put_profile_def)

lemma keysToAttend_Some:
  "get_profile ds uid = Some p \<Longrightarrow> keysToAttend ds uid = conferenceKeysToAttend p"
  by (simp add: keysToAttend_def)

lemma profile_or_new_Some:
  "get_profile ds (user_id u) = Some p \<Longrightarrow> profile_or_new ds u = p"
  by (simp add: profile_or_new_def)

subsection \<open>The outcomes of the four operations\<close>

lemma register_success:
  assumes "get_entity ds wsck = Some (ConferenceEntity conf)"
    and "0 < seatsAvailable conf"
    and "wsck \<notin> set (keysToAttend ds (user_id u))"
  shows "registerForConference (Some u) wsck ds =
    (Inr (BooleanMessage True),
     put_entity wsck (ConferenceEntity (conf\<lparr>seatsAvailable := seatsAvailable conf - 1\<rparr>))
       (put_profile (user_id u)
         ((profile_or_new ds u)\<lparr>conferenceKeysToAttend := keysToAttend ds (user_id u) @ [wsck]\<rparr>)
         (with_profile ds u)))"
  using assms
  by (simp add: registerForConference_def conferenceRegistration_def transactional_def
      conferenceRegistration_body_def getProfileFromUser_Some get_entity_with_profile
      keysToAttend_profile_or_new)

lemma register_duplicate:
  assumes "get_entity ds wsck = Some e"
    and "wsck \<in> set (keysToAttend ds (user_id u))"
  shows "registerForConference (Some u) wsck ds =
    (Inl (ConflictException ''You have already registered for this conference''), ds)"
  using assms
  by (simp add: registerForConference_def conferenceRegistration_def transactional_def
      conferenceRegistration_body_def getProfileFromUser_Some get_entity_with_profile
      keysToAttend_profile_or_new)

lemma unregister_registered:
  assumes "get_entity ds wsck = Some (ConferenceEntity conf)"
    and "wsck \<in> set (keysToAttend ds (user_id u))"
  shows "unregisterFromConference (Some u) wsck ds =
    (Inr (BooleanMessage True),
     put_entity wsck (ConferenceEntity (conf\<lparr>seatsAvailable := seatsAvailable conf + 1\<rparr>))
       (put_profile (user_id u)
         ((profile_or_new ds u)\<lparr>conferenceKeysToAttend :=
            remove1 wsck (keysToAttend ds (user_id u))\<rparr>)
         (with_profile ds u)))"
  using assms
  by (simp add: unregisterFromConference_def conferenceRegistration_def transactional_def
      conferenceRegistration_body_def getProfileFromUser_Some get_entity_with_profile
      keysToAttend_profile_or_new)

lemma unregister_not_registered:
  assumes "get_entity ds wsck = Some e"
    and "wsck \<notin> set (keysToAttend ds (user_id u))"
  shows "unregisterFromConference (Some u) wsck ds =
    (Inr (BooleanMessage False), with_profile ds u)"
proof -
  have "put_entity wsck e (put_profile (user_id u) (profile_or_new ds u) (with_profile ds u)) =
    with_profile ds u"
    using assms(1)
    by (simp add: put_profile_same get_profile_with_profile put_entity_same
        get_entity_with_profile)
  then show ?thesis
    using assms
    by (simp add: unregisterFromConference_def conferenceRegistration_def transactional_def
        conferenceRegistration_body_def getProfileFromUser_Some get_entity_with_profile
        keysToAttend_profile_or_new)
qed

lemma keysToAttend_with_profile:
  "keysToAttend (with_profile ds u) (user_id u) = keysToAttend ds (user_id u)"
  by (simp add: keysToAttend_def get_profile_with_profile)
    (simp add: keysToAttend_profile_or_new [unfolded keysToAttend_def])


lemma add_duplicate:
  assumes "get_entity ds wssk = Some e"
    and "wssk \<in> set (wishlist ds (user_id u))"
  shows "addSessionToWishlist (Some u) wssk ds = (Inr (BooleanMessage False), ds)"
proof -
  from assms(2) obtain p where "get_profile ds (user_id u) = Some p"
    by (cases "get_profile ds (user_id u)") (auto simp: wishlist_def)
  then have "with_profile ds u = ds" by (rule with_profile_existing)
  then show ?thesis using assms
    by (simp add: addSessionToWishlist_def login_required_def transactional_def
        addSessionToWishlist_body_def addSessionToWishlist_try_def getProfileFromUser_Some
        get_entity_with_profile wishlist_profile_or_new)
qed

lemma add_new:
  assumes "get_entity ds wssk = Some e"
    and "wssk \<notin> set (wishlist ds (user_id u))"
  shows "addSessionToWishlist (Some u) wssk ds =
    (Inr (BooleanMessage True),
     put_profile (user_id u)
       ((profile_or_new ds u)\<lparr>sessionKeysOnWishlist := wishlist ds (user_id u) @ [wssk]\<rparr>)
       (with_profile ds u))"
  using assms
  by (simp add: addSessionToWishlist_def login_required_def transactional_def
      addSessionToWishlist_body_def addSessionToWishlist_try_def getProfileFromUser_Some
      get_entity_with_profile wishlist_profile_or_new)

lemma delete_absent:
  assumes "get_entity ds wssk = Some e"
    and "wssk \<notin> set (wishlist ds (user_id u))"
  shows "deleteSessionFromWishlist (Some u) wssk ds =
    (Inr (BooleanMessage False), with_profile ds u)"
  using assms
  by (simp add: deleteSessionFromWishlist_def login_required_def transactional_def
      deleteSessionFromWishlist_body_def deleteSessionFromWishlist_try_def
      getProfileFromUser_Some get_entity_with_profile wishlist_profile_or_new)

lemma wishlist_with_profile:
  "wishlist (with_profile ds u) (user_id u) = wishlist ds (user_id u)"
  by (simp add: wishlist_def get_profile_with_profile)
    (simp add: wishlist_profile_or_new [unfolded wishlist_def])

lemma roundtrip_state:
  assumes e: "get_entity ds wsck = Some (ConferenceEntity c)"
    and s: "0 < seatsAvailable c"
    and k: "wsck \<notin> set (keysToAttend ds (user_id u))"
  shows "unregisterFromConference (Some u) wsck (snd (registerForConference (Some u) wsck ds)) =
    (Inr (BooleanMessage True), with_profile ds u)"
proof -
  let ?K = "keysToAttend ds (user_id u)"
  let ?P = "profile_or_new ds u"
  let ?W = "with_profile ds u"
  let ?c' = "c\<lparr>seatsAvailable := seatsAvailable c - 1\<rparr>"
  let ?p' = "?P\<lparr>conferenceKeysToAttend := ?K @ [wsck]\<rparr>"
  let ?ds1 = "put_entity wsck (ConferenceEntity ?c') (put_profile (user_id u) ?p' ?W)"
  have r: "snd (registerForConference (Some u) wsck ds) = ?ds1"
    by (simp add: register_success [OF e s k])
  have e1: "get_entity ?ds1 wsck = Some (ConferenceEntity ?c')"
    by (simp add: get_entity_put_entity)
  have p1: "get_profile ?ds1 (user_id u) = Some ?p'"
    by (simp add: get_profile_put_entity get_profile_put_profile)
  have k1: "keysToAttend ?ds1 (user_id u) = ?K @ [wsck]"
    by (simp add: keysToAttend_Some [OF p1])
  have P1: "profile_or_new ?ds1 u = ?p'"
    by (rule profile_or_new_Some [OF p1])
  have W1: "with_profile ?ds1 u = ?ds1"
    by (rule with_profile_existing [OF p1])
  have c: "?c'\<lparr>seatsAvailable := seatsAvailable ?c' + 1\<rparr> = c" by simp
  have rm: "remove1 wsck (?K @ [wsck]) = ?K"
    using k by (simp add: remove1_append)
  have p: "?p'\<lparr>conferenceKeysToAttend := ?K\<rparr> = ?P"
    by (simp add: keysToAttend_profile_or_new [symmetric])
  have "unregisterFromConference (Some u) wsck ?ds1 =
    (Inr (BooleanMessage True),
     put_entity wsck (ConferenceEntity c) (put_profile (user_id u) ?P ?ds1))"
    using unregister_registered [OF e1, of u] by (simp only: k1 P1 W1 c rm p) simp
  also have "put_entity wsck (ConferenceEntity c) (put_profile (user_id u) ?P ?ds1) =
    put_entity wsck (ConferenceEntity c) (put_profile (user_id u) ?P ?W)"
    by (simp add: put_profile_put_entity put_entity_twice put_profile_twice)
  also have "\<dots> = ?W"
    using e by (simp add: put_profile_same get_profile_with_profile put_entity_same
        get_entity_with_profile)
  finally show ?thesis by (simp add: r)
qed

lemmas example_defs = alice_def alice_profile_def pycon_def keynote_def example_store_def
  keysToAttend_def wishlist_def get_profile_def get_entity_def

lemmas run_defs = registerForConference_def unregisterFromConference_def
  conferenceRegistration_def conferenceRegistration_body_def transactional_def
  login_required_def getProfileFromUser_def put_profile_def put_entity_def
  addSessionToWishlist_def addSessionToWishlist_body_def addSessionToWishlist_try_def
  deleteSessionFromWishlist_def deleteSessionFromWishlist_body_def
  deleteSessionFromWishlist_try_def

subsection \<open>The claims\<close>

text \<open>
  C1.  When the conference has no seat left (\<open>seatsAvailable = 0\<close>) and the user is not
  registered for it, \<open>registerForConference\<close> raises the \<open>ConflictException\<close> ``There are no
  seats available.'' (the capacity error of the registration), and the datastore after the
  call is the datastore before it: neither the Profile nor the Conference is changed, and a
  Profile created on the way is dropped with the transaction.
\<close>

theorem register_without_seats:
  assumes "get_entity ds wsck = Some (ConferenceEntity conf)"
    and "seatsAvailable conf = 0"
    and "wsck \<notin> set (keysToAttend ds (user_id u))"
  shows "registerForConference (Some u) wsck ds =
    (Inl (ConflictException ''There are no seats available.''), ds)"
  using assms
  by (simp add: registerForConference_def conferenceRegistration_def transactional_def
      conferenceRegistration_body_def getProfileFromUser_Some get_entity_with_profile
      keysToAttend_profile_or_new)

theorem register_without_seats_witness:
  "registerForConference (Some alice) ''conf1'' (example_store [] [] 0) =
    (Inl (ConflictException ''There are no seats available.''), example_store [] [] 0)"
proof -
  have e: "get_entity (example_store [] [] 0) ''conf1'' = Some (ConferenceEntity (pycon 0))"
    by (simp add: example_defs)
  have s: "seatsAvailable (pycon 0) = 0" by (simp add: pycon_def)
  have k: "''conf1'' \<notin> set (keysToAttend (example_store [] [] 0) (user_id alice))"
    by (simp add: example_defs)
  show ?thesis using register_without_seats [OF e s k] by simp
qed

text \<open>
  The registration half of C2 as the code has it: after a first registration the second
  call raises ``You have already registered for this conference'' and changes nothing, so
  \<open>seatsAvailable\<close> has gone down once over both calls.
\<close>

lemma register_twice:
  assumes "get_entity ds0 wsck = Some (ConferenceEntity c)"
    and "0 < seatsAvailable c"
    and "wsck \<notin> set (keysToAttend ds0 (user_id u))"
  shows "fst (registerForConference (Some u) wsck ds0) = Inr (BooleanMessage True) \<and>
    registerForConference (Some u) wsck (snd (registerForConference (Some u) wsck ds0)) =
      (Inl (ConflictException ''You have already registered for this conference''),
       snd (registerForConference (Some u) wsck ds0)) \<and>
    get_entity (snd (registerForConference (Some u) wsck ds0)) wsck =
      Some (ConferenceEntity (c\<lparr>seatsAvailable := seatsAvailable c - 1\<rparr>))"
proof -
  let ?ds1 = "snd (registerForConference (Some u) wsck ds0)"
  have r: "registerForConference (Some u) wsck ds0 =
    (Inr (BooleanMessage True),
     put_entity wsck (ConferenceEntity (c\<lparr>seatsAvailable := seatsAvailable c - 1\<rparr>))
       (put_profile (user_id u)
         ((profile_or_new ds0 u)\<lparr>conferenceKeysToAttend :=
            keysToAttend ds0 (user_id u) @ [wsck]\<rparr>)
         (with_profile ds0 u)))"
    by (rule register_success [OF assms])
  have e1: "get_entity ?ds1 wsck =
      Some (ConferenceEntity (c\<lparr>seatsAvailable := seatsAvailable c - 1\<rparr>))"
    by (simp add: r get_entity_put_entity)
  have k1: "wsck \<in> set (keysToAttend ?ds1 (user_id u))"
    by (simp add: r keysToAttend_def get_profile_put_entity get_profile_put_profile)
  have "registerForConference (Some u) wsck ?ds1 =
        (Inl (ConflictException ''You have already registered for this conference''), ?ds1)"
    by (rule register_duplicate [OF e1 k1])
  then show ?thesis using e1 by (simp add: r)
qed

text \<open>
  C2.  The claim has the second \<open>addSessionToWishlist\<close> of a session surface the conflict to
  the caller, as the second \<open>registerForConference\<close> does.  The code raises the
  \<open>ConflictException\<close> ``You already have this in your wishlist'' inside a \<^verbatim>\<open>try\<close> block
  whose bare \<^verbatim>\<open>except\<close> clause catches it: at a second addition of \<open>sess1\<close> by a signed-in
  user the caller gets \<open>BooleanMessage False\<close> and no error.  The wishlist holds the key
  once, as the claim says.
\<close>

theorem addSessionToWishlist_twice:
  "addSessionToWishlist (Some alice) ''sess1''
       (snd (addSessionToWishlist (Some alice) ''sess1'' (example_store [] [] 2))) =
     (Inr (BooleanMessage False), example_store [] [''sess1''] 2)"
  by (simp add: run_defs example_defs)

text \<open>
  C5.  For a conference with a seat left and a user not registered for it, registering and
  then unregistering both succeed, and afterwards the Conference is the one before the
  registration (\<open>seatsAvailable\<close> included) and the user's \<open>conferenceKeysToAttend\<close> is the
  list before it; when the user had a Profile the whole datastore is the one before.
\<close>

theorem register_unregister_roundtrip:
  assumes "get_entity ds wsck = Some (ConferenceEntity c)"
    and "0 < seatsAvailable c"
    and "wsck \<notin> set (keysToAttend ds (user_id u))"
  shows "fst (registerForConference (Some u) wsck ds) = Inr (BooleanMessage True) \<and>
    fst (unregisterFromConference (Some u) wsck
          (snd (registerForConference (Some u) wsck ds))) = Inr (BooleanMessage True) \<and>
    get_entity (snd (unregisterFromConference (Some u) wsck
          (snd (registerForConference (Some u) wsck ds)))) wsck = Some (ConferenceEntity c) \<and>
    keysToAttend (snd (unregisterFromConference (Some u) wsck
          (snd (registerForConference (Some u) wsck ds)))) (user_id u) =
      keysToAttend ds (user_id u) \<and>
    (get_profile ds (user_id u) \<noteq> None \<longrightarrow>
      snd (unregisterFromConference (Some u) wsck
          (snd (registerForConference (Some u) wsck ds))) = ds)"
proof -
  have r: "fst (registerForConference (Some u) wsck ds) = Inr (BooleanMessage True)"
    by (simp add: register_success [OF assms])
  have t: "unregisterFromConference (Some u) wsck
      (snd (registerForConference (Some u) wsck ds)) =
    (Inr (BooleanMessage True), with_profile ds u)"
    by (rule roundtrip_state [OF assms])
  show ?thesis
    using assms(1)
    by (auto simp add: r t get_entity_with_profile keysToAttend_with_profile
        with_profile_existing)
qed

theorem register_unregister_roundtrip_witness:
  "snd (registerForConference (Some alice) ''conf1'' (example_store [] [] 2)) =
     example_store [''conf1''] [] 1 \<and>
   unregisterFromConference (Some alice) ''conf1'' (example_store [''conf1''] [] 1) =
     (Inr (BooleanMessage True), example_store [] [] 2)"
proof -
  let ?ds = "example_store [] [] 2"
  have e: "get_entity ?ds ''conf1'' = Some (ConferenceEntity (pycon 2))"
    by (simp add: example_defs)
  have s: "0 < seatsAvailable (pycon 2)" by (simp add: pycon_def)
  have k: "''conf1'' \<notin> set (keysToAttend ?ds (user_id alice))"
    by (simp add: example_defs)
  have p: "get_profile ?ds (user_id alice) \<noteq> None" by (simp add: example_defs)
  have s1: "snd (registerForConference (Some alice) ''conf1'' ?ds) =
      example_store [''conf1''] [] 1"
    by (simp add: run_defs example_defs)
  show ?thesis
    using register_unregister_roundtrip [OF e s k] p unfolding s1
    by (simp add: prod_eq_iff)
qed

text \<open>
  C6.  For a conference the user is not registered for, \<open>unregisterFromConference\<close> raises
  nothing and returns \<open>BooleanMessage False\<close>; the Conference and the user's
  \<open>conferenceKeysToAttend\<close> are unchanged, and when the user had a Profile the whole
  datastore is.
\<close>

theorem unregister_never_registered:
  assumes "get_entity ds wsck = Some (ConferenceEntity c)"
    and "wsck \<notin> set (keysToAttend ds (user_id u))"
  shows "fst (unregisterFromConference (Some u) wsck ds) = Inr (BooleanMessage False) \<and>
    get_entity (snd (unregisterFromConference (Some u) wsck ds)) wsck =
      Some (ConferenceEntity c) \<and>
    keysToAttend (snd (unregisterFromConference (Some u) wsck ds)) (user_id u) =
      keysToAttend ds (user_id u) \<and>
    entities (snd (unregisterFromConference (Some u) wsck ds)) = entities ds \<and>
    (get_profile ds (user_id u) \<noteq> None \<longrightarrow>
      snd (unregisterFromConference (Some u) wsck ds) = ds)"
  using assms
  by (auto simp add: unregister_not_registered get_entity_with_profile
      keysToAttend_with_profile entities_with_profile with_profile_existing)

theorem unregister_never_registered_witness:
  "unregisterFromConference (Some alice) ''conf1'' (example_store [] [] 2) =
     (Inr (BooleanMessage False), example_store [] [] 2)"
proof -
  let ?ds = "example_store [] [] 2"
  have e: "get_entity ?ds ''conf1'' = Some (ConferenceEntity (pycon 2))"
    by (simp add: example_defs)
  have k: "''conf1'' \<notin> set (keysToAttend ?ds (user_id alice))"
    by (simp add: example_defs)
  have p: "get_profile ?ds (user_id alice) \<noteq> None" by (simp add: example_defs)
  show ?thesis
    using unregister_never_registered [OF e k] p by (simp add: prod_eq_iff)
qed

text \<open>
  C7.  The claim has \<open>deleteSessionFromWishlist\<close> surface an error to the caller when the
  session is not in the wishlist, and the comment of the code says ``else raise exception''.
  The code raises the \<open>NotFoundException\<close> ``No session found in wishlist with key: ...''
  inside a \<^verbatim>\<open>try\<close> block whose bare \<^verbatim>\<open>except\<close> clause catches it: for a stored session
  that is not in the wishlist of the signed-in user the caller gets \<open>BooleanMessage False\<close>
  and no error.
\<close>

theorem deleteSessionFromWishlist_absent:
  "deleteSessionFromWishlist (Some alice) ''sess1'' (example_store [] [''other''] 2) =
     (Inr (BooleanMessage False), example_store [] [''other''] 2)"
  by (simp add: run_defs example_defs)

section \<open>Properties of the featured-speaker consumer\<close>


lemma sessions_of_set:
  "set (sessions_of es) = {s. \<exists>k. (k, SessionEntity s) \<in> set es}"
proof (induction es)
  case Nil
  then show ?case by simp
next
  case (Cons p es)
  obtain k e where p: "p = (k, e)" by (cases p)
  show ?case using Cons p by (cases e) auto
qed

lemma join_contains: "x \<in> set xs \<Longrightarrow> \<exists>a b. join sep xs = a @ x @ b"
proof (induction sep xs rule: join.induct)
  case (1 sep)
  then show ?case by simp
next
  case (2 sep y)
  then have "join sep [y] = [] @ x @ []" by simp
  then show ?case by blast
next
  case (3 sep y z zs)
  show ?case
  proof (cases "x = y")
    case True
    then have "join sep (y # z # zs) = [] @ x @ (sep @ join sep (z # zs))" by simp
    then show ?thesis by blast
  next
    case False
    then have "x \<in> set (z # zs)" using "3.prems" by simp
    then obtain a b where "join sep (z # zs) = a @ x @ b" using "3.IH" by blast
    then have "join sep (y # z # zs) = (y @ sep @ a) @ x @ b" by simp
    then show ?thesis by blast
  qed
qed








lemmas featured_defs = talk_def ada_def featured_store_def featured_task_def pycon_def
  SetFeaturedSpeakerHandler_post_def updateSpeaker_def Session_query_def request_get_def
  get_entity_def put_entity_def MEMCACHE_FEATURED_SPEAKER_def Let_def


text \<open>
  C8.  The handler writes the cache key exactly when the query for the sessions of the given
  speaker at the given conference finds more than one, and what it writes, over whatever
  was there, is the speaker name, `` is Featured Speaker with sessions '' and the names of
  the sessions found, joined by commas; otherwise memcache is left as it was.  The sessions
  found are the stored Session entities with that speaker key and conference key, and the
  name of each of them occurs in the joined string.
\<close>

theorem featured_speaker_published:
  "snd (SetFeaturedSpeakerHandler_post request (ds, memcache)) =
     (if 1 < length (Session_query ds (request_get request ''speakerKey'')
                       (request_get request ''websafeConferenceKey''))
      then memcache(MEMCACHE_FEATURED_SPEAKER \<mapsto>
             request_get request ''speakerName'' @ '' is Featured Speaker with sessions '' @
             join '', '' (map session_name
               (Session_query ds (request_get request ''speakerKey'')
                  (request_get request ''websafeConferenceKey''))))
      else memcache) \<and>
   set (Session_query ds sk ck) =
     {s. (\<exists>k. (k, SessionEntity s) \<in> set (entities ds)) \<and>
         speakerKey s = sk \<and> websafeConferenceKey s = ck} \<and>
   (\<forall>s\<in>set (Session_query ds sk ck).
      \<exists>a b. join '', '' (map session_name (Session_query ds sk ck)) = a @ session_name s @ b)"
proof (intro conjI ballI)
  show "snd (SetFeaturedSpeakerHandler_post request (ds, memcache)) =
     (if 1 < length (Session_query ds (request_get request ''speakerKey'')
                       (request_get request ''websafeConferenceKey''))
      then memcache(MEMCACHE_FEATURED_SPEAKER \<mapsto>
             request_get request ''speakerName'' @ '' is Featured Speaker with sessions '' @
             join '', '' (map session_name
               (Session_query ds (request_get request ''speakerKey'')
                  (request_get request ''websafeConferenceKey''))))
      else memcache)"
    by (simp add: SetFeaturedSpeakerHandler_post_def Let_def)
  show "set (Session_query ds sk ck) =
     {s. (\<exists>k. (k, SessionEntity s) \<in> set (entities ds)) \<and>
         speakerKey s = sk \<and> websafeConferenceKey s = ck}"
    by (auto simp: Session_query_def sessions_of_set)
next
  fix s assume "s \<in> set (Session_query ds sk ck)"
  then have "session_name s \<in> set (map session_name (Session_query ds sk ck))" by simp
  then show "\<exists>a b. join '', '' (map session_name (Session_query ds sk ck)) =
      a @ session_name s @ b"
    by (rule join_contains)
qed

theorem featured_speaker_published_witness:
  "snd (SetFeaturedSpeakerHandler_post (featured_task ''spk1'' ''Ada'')
         (featured_store [''Intro''], Map.empty)) ''FEATURED_SPEAKER'' =
     Some ''Ada is Featured Speaker with sessions Intro, Advanced'' \<and>
   snd (SetFeaturedSpeakerHandler_post (featured_task ''spk2'' ''Bob'')
         (featured_store [''Intro''], Map.empty)) ''FEATURED_SPEAKER'' = None"
proof -
  have q: "Session_query (featured_store [''Intro'']) ''spk1'' ''conf1'' =
      [talk ''Intro'', talk ''Advanced'']"
    by (simp add: featured_defs)
  have g: "request_get (featured_task ''spk1'' ''Ada'') ''speakerKey'' = ''spk1''"
    "request_get (featured_task ''spk1'' ''Ada'') ''websafeConferenceKey'' = ''conf1''"
    "request_get (featured_task ''spk1'' ''Ada'') ''speakerName'' = ''Ada''"
    by (simp_all add: featured_defs)
  have m: "\<forall>s\<in>set (Session_query (featured_store [''Intro'']) ''spk1'' ''conf1'').
      speakerKey s = ''spk1''"
    by (simp add: q talk_def)
  have "snd (SetFeaturedSpeakerHandler_post (featured_task ''spk1'' ''Ada'')
         (featured_store [''Intro''], Map.empty)) ''FEATURED_SPEAKER'' =
     Some ''Ada is Featured Speaker with sessions Intro, Advanced''"
    using featured_speaker_published [of "featured_task ''spk1'' ''Ada''"
        "featured_store [''Intro'']" Map.empty "''spk1''" "''conf1''"] m
    by (simp add: g q talk_def MEMCACHE_FEATURED_SPEAKER_def)
  moreover have "snd (SetFeaturedSpeakerHandler_post (featured_task ''spk2'' ''Bob'')
         (featured_store [''Intro''], Map.empty)) ''FEATURED_SPEAKER'' = None"
    by (simp add: featured_defs)
  ultimately show ?thesis by simp
qed




end
